theory Spec2Isabelle
  imports Complex_Main
begin

section \<open>JavaScript values at the WebAPI boundary\<close>

text \<open>
  The response translators of \<^verbatim>\<open>WorkspaceAPI.ts\<close> and \<^verbatim>\<open>BackendConfigAPI.ts\<close> take
  and return untyped JavaScript values (\<^verbatim>\<open>any\<close>); the TypeScript interfaces are erased
  at run time. A value is therefore modelled as it exists at run time. An object is the
  list of its own properties in insertion order. A property that holds \<^verbatim>\<open>undefined\<close> is
  a property all the same: it is listed by \<^verbatim>\<open>Object.keys\<close> and found by \<^verbatim>\<open>in\<close>.
  Numbers are rationals: the payloads arrive as JSON, which has neither NaN nor
  infinities.
\<close>

datatype jsval =
    Undefined
  | Null
  | Boolean bool
  | Number rat
  | String string
  | Array "jsval list"
  | Object "(string \<times> jsval) list"

text \<open>JavaScript's ToBoolean, as used by \<^verbatim>\<open>if (!x)\<close>.\<close>

fun truthy :: "jsval \<Rightarrow> bool" where
  "truthy Undefined = False"
| "truthy Null = False"
| "truthy (Boolean b) = b"
| "truthy (Number n) = (n \<noteq> 0)"
| "truthy (String s) = (s \<noteq> [])"
| "truthy (Array xs) = True"
| "truthy (Object ps) = True"

text \<open>
  The own properties of a value as a map. Only objects carry the property names that the
  translators read; on any other truthy value the read yields \<^verbatim>\<open>undefined\<close>. (On
  \<^verbatim>\<open>null\<close> and \<^verbatim>\<open>undefined\<close> a read raises a TypeError in JavaScript; both translators
  return before any read in that case.)
\<close>

fun properties :: "jsval \<Rightarrow> (string \<rightharpoonup> jsval)" where
  "properties (Object ps) = map_of ps"
| "properties v = Map.empty"

definition get :: "jsval \<Rightarrow> string \<Rightarrow> jsval" where
  "get v k = (case properties v k of None \<Rightarrow> Undefined | Some x \<Rightarrow> x)"

definition keys :: "jsval \<Rightarrow> string set" where
  "keys v = dom (properties v)"

fun is_object :: "jsval \<Rightarrow> bool" where
  "is_object (Object ps) = True"
| "is_object v = False"

text \<open>
  Two objects are the same record of data when they have the same own properties with the
  same values; the order in which the properties were written does not matter.
\<close>

definition same_object :: "jsval \<Rightarrow> jsval \<Rightarrow> bool" where
  "same_object a b \<longleftrightarrow> is_object a \<and> is_object b \<and> properties a = properties b"

subsection \<open>\<^verbatim>\<open>WorkspaceAPI.ts\<close>: responseToWorkspace\<close>

definition responseToWorkspace :: "jsval \<Rightarrow> jsval" where
  "responseToWorkspace workspaceResponse =
     (if \<not> truthy workspaceResponse then Null
      else Object
        [(''baseDir'', get workspaceResponse ''base_dir''),
         (''description'', get workspaceResponse ''description''),
         (''isScratch'', get workspaceResponse ''is_scratch''),
         (''isModified'', get workspaceResponse ''is_modified''),
         (''isSaved'', get workspaceResponse ''is_saved''),
         (''workflow'', get workspaceResponse ''workflow''),
         (''resources'', get workspaceResponse ''resources'')])"

subsection \<open>\<^verbatim>\<open>BackendConfigAPI.ts\<close>: fromPythonConfig, toPythonConfig\<close>

definition fromPythonConfig :: "jsval \<Rightarrow> jsval" where
  "fromPythonConfig configResponse =
     (if \<not> truthy configResponse then Null
      else Object
        [(''dataStoresPath'', get configResponse ''data_stores_path''),
         (''useWorkspaceImageryCache'', get configResponse ''use_workspace_imagery_cache'')])"

definition toPythonConfig :: "jsval \<Rightarrow> jsval" where
  "toPythonConfig backendConfig =
     (if \<not> truthy backendConfig then Object []
      else Object
        [(''data_stores_path'', get backendConfig ''dataStoresPath''),
         (''use_workspace_imagery_cache'', get backendConfig ''useWorkspaceImageryCache'')])"

subsection \<open>Example payloads\<close>

text \<open>The response of the spec's field-translation example, and the same response with one more field.\<close>

definition example_response :: jsval where
  "example_response = Object [(''base_dir'', String ''/x''), (''is_scratch'', Boolean True)]"

definition example_response_extra :: jsval where
  "example_response_extra =
     Object [(''base_dir'', String ''/x''), (''is_scratch'', Boolean True),
             (''unmapped'', Number 1)]"

section \<open>The task list entry (\<^verbatim>\<open>TaskComponent\<close>)\<close>

text \<open>
  Modelled from the spec: \<^verbatim>\<open>JobStatusEnum\<close> is declared in \<^verbatim>\<open>webapi/Job\<close>, which is not
  among the sources. The spec gives the life cycle
  NEW, SUBMITTED, IN\_PROGRESS, then one of SUCCEEDED, FAILED, CANCELLED.
\<close>

datatype JobStatusEnum = NEW | SUBMITTED | IN_PROGRESS | SUCCEEDED | FAILED | CANCELLED

text \<open>
  Modelled from the spec: the declarations of \<^verbatim>\<open>JobProgress\<close>, \<^verbatim>\<open>JobFailure\<close> and
  \<^verbatim>\<open>TaskState\<close> are not among the sources either. The spec describes an optional
  progress record (work units completed, total when known, message) and an optional
  failure record (message, code). A field that a notification does not carry is
  \<^verbatim>\<open>undefined\<close> in JavaScript and \<open>None\<close> here.
\<close>

record JobProgress =
  worked :: "rat option"
  total :: "rat option"
  message :: "string option"

record JobFailure =
  failure_message :: "string option"
  code :: "int option"

record TaskState =
  status :: JobStatusEnum
  progress :: "JobProgress option"
  failure :: "JobFailure option"
  title :: "string option"

text \<open>Truthiness of an optional number and of an optional string.\<close>

definition truthy_number :: "rat option \<Rightarrow> bool" where
  "truthy_number x = (case x of None \<Rightarrow> False | Some n \<Rightarrow> n \<noteq> 0)"

definition truthy_string :: "string option \<Rightarrow> bool" where
  "truthy_string x = (case x of None \<Rightarrow> False | Some s \<Rightarrow> s \<noteq> [])"

text \<open>\<^verbatim>\<open>x > 0\<close> on an optional number: \<^verbatim>\<open>undefined > 0\<close> is false.\<close>

definition greater_zero :: "rat option \<Rightarrow> bool" where
  "greater_zero x = (case x of None \<Rightarrow> False | Some n \<Rightarrow> n > 0)"

definition isRunning :: "TaskState \<Rightarrow> bool" where
  "isRunning tastState \<longleftrightarrow>
     status tastState = NEW \<or> status tastState = SUBMITTED \<or> status tastState = IN_PROGRESS"

definition isMakingProgress :: "TaskState \<Rightarrow> bool" where
  "isMakingProgress tastState \<longleftrightarrow>
     status tastState = IN_PROGRESS \<and>
     (case progress tastState of
        None \<Rightarrow> False
      | Some p \<Rightarrow> truthy_number (worked p) \<and> greater_zero (total p))"

text \<open>
  What \<^verbatim>\<open>render\<close> returns, reduced to its content: the title, the activity element
  and the error line. The cancellable activity is the progress bar with its value, the
  Cancel button (which calls \<^verbatim>\<open>onCancelJob\<close> with the job id) and the optional progress
  message; the other activity is the progress bar without a value. The error line holds
  the failure message and the remove button (which calls \<^verbatim>\<open>onRemoveJob\<close> with the job id).
\<close>

datatype activity =
    CancelableProgress rat int "string option"
  | UnboundedProgressBar

datatype task_title = Title string | TaskNumber int

record rendered_task =
  shown_title :: task_title
  shown_activity :: "activity option"
  shown_errorMsg :: "(string \<times> int) option"

definition render :: "TaskState \<Rightarrow> int \<Rightarrow> rendered_task" where
  "render taskState jobId =
     (let activity =
            (if isRunning taskState then
               (if isMakingProgress taskState then
                  (let value = the (worked (the (progress taskState)))
                                 / the (total (the (progress taskState)));
                       progressMag =
                         (case progress taskState of
                            None \<Rightarrow> None
                          | Some p \<Rightarrow> if truthy_string (message p) then message p else None)
                   in Some (CancelableProgress value jobId progressMag))
                else Some UnboundedProgressBar)
             else None);
          errorMsg =
            (case failure taskState of
               None \<Rightarrow> None
             | Some f \<Rightarrow>
                 if truthy_string (failure_message f)
                 then Some (the (failure_message f), jobId) else None);
          title = (if truthy_string (title taskState)
                   then Title (the (title taskState)) else TaskNumber jobId)
      in \<lparr>shown_title = title, shown_activity = activity, shown_errorMsg = errorMsg\<rparr>)"

text \<open>What a user sees of the activity: a percentage, and a Cancel button.\<close>

fun percentage :: "activity option \<Rightarrow> rat option" where
  "percentage (Some (CancelableProgress v j m)) = Some v"
| "percentage a = None"

fun offers_cancel :: "activity option \<Rightarrow> bool" where
  "offers_cancel (Some (CancelableProgress v j m)) = True"
| "offers_cancel a = False"

text \<open>
  The condition of the claims on the task list: the task is in progress and has a progress
  record whose worked counter is nonzero and whose total is positive.
\<close>

definition determinate :: "TaskState \<Rightarrow> bool" where
  "determinate t \<longleftrightarrow>
     status t = IN_PROGRESS \<and>
     (\<exists>p w n. progress t = Some p \<and> worked p = Some w \<and> w \<noteq> 0 \<and> total p = Some n \<and> 0 < n)"


section \<open>The external-object lifecycle bridge (\<^verbatim>\<open>ExternalObjectComponent\<close>)\<close>

subsection \<open>Data\<close>

text \<open>
  An \<^verbatim>\<open>HTMLElement\<close> is a handle. The DOM is kept to the depth the bridge uses it: the
  parent of every element and its \<^verbatim>\<open>id\<close> attribute. \<^verbatim>\<open>appendChild\<close> moves an element
  below its new parent, and \<^verbatim>\<open>removeChild\<close> raises a NotFoundError when the element is
  not a child of the parent. The bridge only ever places a container directly below a
  parent container, so \<^verbatim>\<open>contains\<close> is read as the test for a child; elements nested more
  deeply, and a container that is an ancestor of its parent container, are outside the
  model.
\<close>

type_synonym element = nat

text \<open>
  What the source can raise: the \<^verbatim>\<open>Error\<close> of \<^verbatim>\<open>checkProps\<close>, a failed assertion, the
  TypeError of reading a property of \<^verbatim>\<open>undefined\<close>, and the NotFoundError of the DOM's
  \<^verbatim>\<open>removeChild\<close>.
\<close>

datatype error = NoIdError | AssertionError | TypeError | NotFoundError

text \<open>
  A method either returns or throws. In both cases the component, the stores and the DOM
  are left in some state, which the outcome carries.
\<close>

datatype 's outcome = Returned 's | Thrown error 's

fun final :: "'s outcome \<Rightarrow> 's" where
  "final (Returned s) = s"
| "final (Thrown e s) = s"


fun and_then :: "'s outcome \<Rightarrow> ('s \<Rightarrow> 's outcome) \<Rightarrow> 's outcome" where
  "and_then (Returned s) f = f s"
| "and_then (Thrown e s) f = Thrown e s"

text \<open>\<^verbatim>\<open>ExternalObjectRef\<close>: the \<^verbatim>\<open>state\<close> is optional, the container may be missing.\<close>

record ('e, 'es) ExternalObjectRef =
  object :: 'e
  state :: "'es option"
  container :: "element option"

text \<open>
  \<^verbatim>\<open>ExternalObjectStore\<close>: a dictionary from identifiers to references, as its type
  \<^verbatim>\<open>{ [id: string]: ExternalObjectRef }\<close> says. The properties that every JavaScript
  object inherits (\<^verbatim>\<open>constructor\<close>, \<^verbatim>\<open>toString\<close>) are not entries of the dictionary.
\<close>

type_synonym ('e, 'es) ExternalObjectStore = "string \<rightharpoonup> ('e, 'es) ExternalObjectRef"

text \<open>
  Store objects are shared and mutated in place, so they live in a heap. Its addresses
  are the static \<^verbatim>\<open>DEFAULT_EXTERNAL_OBJECT_CACHE\<close> of the class and the store objects
  that callers create and pass in.
\<close>

datatype store_address = DEFAULT_EXTERNAL_OBJECT_CACHE | Injected nat

text \<open>
  \<^verbatim>\<open>IExternalObjectComponentProps\<close>, together with the remaining properties of the
  subclass (the fields of the external state, \<^verbatim>\<open>style\<close>, \<^verbatim>\<open>className\<close>).
  The optional \<^verbatim>\<open>externalObjectStore\<close> holds the address of a store object.
\<close>

record 'p IExternalObjectComponentProps =
  props_id :: string
  props_externalObjectStore :: "nat option"
  props_debug :: bool
  props_rest :: 'p

text \<open>
  The calls that leave the bridge, in the order in which they are made: the methods that a
  subclass supplies, and \<^verbatim>\<open>console.log\<close>.
\<close>

datatype ('e, 'es) event =
    NewContainer string
  | NewExternalObject element "element option"
  | ExternalObjectMounted 'e element "element option"
  | ExternalObjectUnmounted 'e element "element option"
  | UpdateExternalObject 'e "'es option" 'es "element option" "element option"
  | ConsoleLog string string

text \<open>Everything outside the component instance: the stores, the DOM, the calls made.\<close>

record ('e, 'es) world =
  stores :: "store_address \<Rightarrow> ('e, 'es) ExternalObjectStore"
  parentNode :: "element \<rightharpoonup> element"
  element_id :: "element \<Rightarrow> string"
  calls :: "('e, 'es) event list"

text \<open>The component instance in its world: \<^verbatim>\<open>this.props\<close> and \<^verbatim>\<open>this.parentContainer\<close>.\<close>

record ('p, 'e, 'es) component = "('e, 'es) world" +
  props :: "'p IExternalObjectComponentProps"
  parentContainer :: "element option"

text \<open>
  The methods that a subclass supplies and that return a value. What they return may
  depend on the properties and on the calls made so far (a subclass creates a new
  container at every call of \<^verbatim>\<open>newContainer\<close>). They are taken to return normally and
  to leave the stores and the position of the container in the DOM alone. The methods
  without a result (\<^verbatim>\<open>updateExternalObject\<close>, \<^verbatim>\<open>externalObjectMounted\<close>,
  \<^verbatim>\<open>externalObjectUnmounted\<close>) appear as calls only.
\<close>

record ('p, 'e, 'es) subclass_methods =
  newContainer ::
    "('e, 'es) event list \<Rightarrow> 'p IExternalObjectComponentProps \<Rightarrow> string \<Rightarrow> element option"
  newExternalObject ::
    "('e, 'es) event list \<Rightarrow> 'p IExternalObjectComponentProps \<Rightarrow> element \<Rightarrow> element option \<Rightarrow> 'e"
  propsToExternalObjectState :: "'p IExternalObjectComponentProps \<Rightarrow> 'es"

text \<open>The default \<^verbatim>\<open>propsToExternalObjectState\<close> returns a shallow copy of the properties.\<close>

definition default_propsToExternalObjectState ::
  "'p IExternalObjectComponentProps \<Rightarrow> 'p IExternalObjectComponentProps" where
  "default_propsToExternalObjectState p = p"

subsection \<open>The DOM and the helpers\<close>

definition contains :: "('p, 'e, 'es) component \<Rightarrow> element \<Rightarrow> element \<Rightarrow> bool" where
  "contains c parent child \<longleftrightarrow> parentNode c child = Some parent"

definition appendChild ::
  "element \<Rightarrow> element \<Rightarrow> ('p, 'e, 'es) component \<Rightarrow> ('p, 'e, 'es) component" where
  "appendChild parent child c = c\<lparr>parentNode := (parentNode c)(child \<mapsto> parent)\<rparr>"

definition removeChild ::
  "element \<Rightarrow> element \<Rightarrow> ('p, 'e, 'es) component \<Rightarrow> ('p, 'e, 'es) component outcome" where
  "removeChild parent child c =
     (if parentNode c child = Some parent
      then Returned (c\<lparr>parentNode := (parentNode c)(child := None)\<rparr>)
      else Thrown NotFoundError c)"

definition call :: "('e, 'es) event \<Rightarrow> ('p, 'e, 'es) component \<Rightarrow> ('p, 'e, 'es) component" where
  "call ev c = c\<lparr>calls := calls c @ [ev]\<rparr>"

text \<open>\<^verbatim>\<open>if (this.props.debug) console.log(message, this.props.id)\<close>\<close>

definition debug_log :: "string \<Rightarrow> ('p, 'e, 'es) component \<Rightarrow> ('p, 'e, 'es) component" where
  "debug_log msg c =
     (if props_debug (props c) then call (ConsoleLog msg (props_id (props c))) c else c)"

text \<open>
  Modelled from the spec: \<^verbatim>\<open>assert.ok\<close> comes from \<^verbatim>\<open>common/assert\<close>, which is not among
  the sources. The spec calls a missing store entry at unmount or update time a
  programming error that fails fast: \<^verbatim>\<open>assert.ok\<close> throws when its argument is
  \<^verbatim>\<open>undefined\<close> and returns otherwise.
\<close>

definition assert_ok :: "'a option \<Rightarrow> error option" where
  "assert_ok v = (case v of None \<Rightarrow> Some AssertionError | Some x \<Rightarrow> None)"

text \<open>
  What is thrown where the source asserts that a reference exists and then reads a field
  of it, when the reference is \<^verbatim>\<open>undefined\<close>: the error of the assertion, and the
  TypeError of the read if the assertion were to return.
\<close>

definition missing_reference :: error where
  "missing_reference = (case assert_ok (None :: unit option) of Some e \<Rightarrow> e | None \<Rightarrow> TypeError)"

subsection \<open>The methods of \<^verbatim>\<open>ExternalObjectComponent\<close>\<close>

text \<open>
  The getter \<^verbatim>\<open>externalObjectStore\<close>:
  \<^verbatim>\<open>this.props.externalObjectStore || ExternalObjectComponent.DEFAULT_EXTERNAL_OBJECT_CACHE\<close>.
\<close>

definition externalObjectStore_address :: "('p, 'e, 'es) component \<Rightarrow> store_address" where
  "externalObjectStore_address c =
     (case props_externalObjectStore (props c) of
        Some a \<Rightarrow> Injected a
      | None \<Rightarrow> DEFAULT_EXTERNAL_OBJECT_CACHE)"

definition externalObjectStore :: "('p, 'e, 'es) component \<Rightarrow> ('e, 'es) ExternalObjectStore" where
  "externalObjectStore c = stores c (externalObjectStore_address c)"

text \<open>Assignment to, and \<^verbatim>\<open>delete\<close> of, a property of \<^verbatim>\<open>this.externalObjectStore\<close>.\<close>

definition store_put ::
  "string \<Rightarrow> ('e, 'es) ExternalObjectRef \<Rightarrow> ('p, 'e, 'es) component \<Rightarrow> ('p, 'e, 'es) component" where
  "store_put k r c =
     c\<lparr>stores := (stores c)(externalObjectStore_address c := (externalObjectStore c)(k \<mapsto> r))\<rparr>"

definition store_delete :: "string \<Rightarrow> ('p, 'e, 'es) component \<Rightarrow> ('p, 'e, 'es) component" where
  "store_delete k c =
     c\<lparr>stores := (stores c)(externalObjectStore_address c := (externalObjectStore c)(k := None))\<rparr>"

definition checkProps :: "'p IExternalObjectComponentProps \<Rightarrow> error option" where
  "checkProps p = (if props_id p = [] then Some NoIdError else None)"

text \<open>The constructor: \<^verbatim>\<open>super(props)\<close>, \<^verbatim>\<open>checkProps(props)\<close>, no parent container yet.\<close>

definition constructor ::
  "'p IExternalObjectComponentProps \<Rightarrow> ('e, 'es) world \<Rightarrow> ('p, 'e, 'es) component outcome" where
  "constructor p w =
     (let this = \<lparr>stores = stores w, parentNode = parentNode w, element_id = element_id w,
                  calls = calls w, props = p, parentContainer = None\<rparr>
      in case checkProps p of Some e \<Rightarrow> Thrown e this | None \<Rightarrow> Returned this)"

definition updateExternalComponentAndSaveProps ::
  "('p, 'e, 'es) subclass_methods \<Rightarrow> ('p, 'e, 'es) component \<Rightarrow> 'p IExternalObjectComponentProps
     \<Rightarrow> ('p, 'e, 'es) component outcome" where
  "updateExternalComponentAndSaveProps h c nextProps =
     (case externalObjectStore c (props_id nextProps) of
        None \<Rightarrow> Thrown missing_reference c
      | Some externalObjectRef \<Rightarrow>
          (let prevState = state externalObjectRef;
               nextState = propsToExternalObjectState h nextProps;
               c1 = debug_log ''updating existing external object'' c;
               c2 = call (UpdateExternalObject (object externalObjectRef) prevState nextState
                            (parentContainer c1) (container externalObjectRef)) c1
           in Returned
                (store_put (props_id nextProps) (externalObjectRef\<lparr>state := Some nextState\<rparr>) c2)))"

definition mountNewExternalObject ::
  "('p, 'e, 'es) subclass_methods \<Rightarrow> ('p, 'e, 'es) component \<Rightarrow> element
     \<Rightarrow> ('p, 'e, 'es) component outcome" where
  "mountNewExternalObject h c parent =
     (let container' = newContainer h (calls c) (props c) (props_id (props c));
          c1 = call (NewContainer (props_id (props c))) c;
          c2 = (case container' of
                  Some k \<Rightarrow> appendChild parent k (debug_log ''attaching new external object'' c1)
                | None \<Rightarrow> c1);
          object' = newExternalObject h (calls c2) (props c2) parent container';
          c3 = call (NewExternalObject parent container') c2;
          c4 = store_put (props_id (props c3))
                 \<lparr>object = object', state = None, container = container'\<rparr> c3;
          c5 = c4\<lparr>parentContainer := Some parent\<rparr>;
          c6 = call (ExternalObjectMounted object' parent container') c5
      in updateExternalComponentAndSaveProps h c6 (props c6))"

definition mountExistingExternalObject ::
  "('p, 'e, 'es) subclass_methods \<Rightarrow> ('p, 'e, 'es) component \<Rightarrow> element
     \<Rightarrow> ('p, 'e, 'es) component outcome" where
  "mountExistingExternalObject h c parent =
     (case externalObjectStore c (props_id (props c)) of
        None \<Rightarrow> Thrown missing_reference c
      | Some externalObjectRef \<Rightarrow>
          (let c1 = (case container externalObjectRef of
                       Some k \<Rightarrow>
                         if \<not> contains c parent k
                         then appendChild parent k
                                (debug_log ''attaching existing external object'' c)
                         else c
                     | None \<Rightarrow> c);
               c2 = c1\<lparr>parentContainer := Some parent\<rparr>;
               c3 = call (ExternalObjectMounted (object externalObjectRef) parent
                            (container externalObjectRef)) c2
           in updateExternalComponentAndSaveProps h c3 (props c3)))"

definition unmountExternalObject ::
  "('p, 'e, 'es) subclass_methods \<Rightarrow> ('p, 'e, 'es) component \<Rightarrow> element
     \<Rightarrow> ('p, 'e, 'es) component outcome" where
  "unmountExternalObject h c parent =
     (case externalObjectStore c (element_id c parent) of
        None \<Rightarrow> Thrown missing_reference c
      | Some externalObjectRef \<Rightarrow>
          and_then
            (case container externalObjectRef of
               Some k \<Rightarrow>
                 if contains c parent k
                 then removeChild parent k (debug_log ''detaching external object'' c)
                 else Returned c
             | None \<Rightarrow> Returned c)
            (\<lambda>c1. Returned
               (call (ExternalObjectUnmounted (object externalObjectRef) parent
                        (container externalObjectRef))
                  (c1\<lparr>parentContainer := None\<rparr>))))"

definition remountExternalObject ::
  "('p, 'e, 'es) subclass_methods \<Rightarrow> ('p, 'e, 'es) component \<Rightarrow> element option
     \<Rightarrow> ('p, 'e, 'es) component outcome" where
  "remountExternalObject h c parent =
     (case parent of
        Some p \<Rightarrow>
          if props_id (props c) \<in> dom (externalObjectStore c)
          then mountExistingExternalObject h c p
          else mountNewExternalObject h c p
      | None \<Rightarrow>
          (case parentContainer c of
             Some p \<Rightarrow> unmountExternalObject h c p
           | None \<Rightarrow> Returned c))"

definition componentWillUpdate ::
  "('p, 'e, 'es) subclass_methods \<Rightarrow> ('p, 'e, 'es) component \<Rightarrow> 'p IExternalObjectComponentProps
     \<Rightarrow> ('p, 'e, 'es) component outcome" where
  "componentWillUpdate h c nextProps =
     (case checkProps nextProps of
        Some e \<Rightarrow> Thrown e c
      | None \<Rightarrow>
          if props_id nextProps \<in> dom (externalObjectStore c)
          then updateExternalComponentAndSaveProps h c nextProps
          else (case parentContainer c of
                  Some p \<Rightarrow> remountExternalObject h c (Some p)
                | None \<Rightarrow> Returned c))"

definition forceRegeneration ::
  "('p, 'e, 'es) subclass_methods \<Rightarrow> ('p, 'e, 'es) component \<Rightarrow> ('p, 'e, 'es) component outcome" where
  "forceRegeneration h c =
     (case externalObjectStore c (props_id (props c)) of
        None \<Rightarrow> Returned c
      | Some externalObjectRef \<Rightarrow>
          and_then
            (let c1 = store_delete (props_id (props c)) c
             in case parentContainer c1 of
                  None \<Rightarrow> Returned c1
                | Some p \<Rightarrow>
                    (case container externalObjectRef of
                       None \<Rightarrow> Returned c1
                     | Some k \<Rightarrow> removeChild p k c1))
            (\<lambda>c2. remountExternalObject h c2 (parentContainer c2)))"

subsection \<open>The life cycle as React drives it\<close>

text \<open>
  \<^verbatim>\<open>render\<close> returns a \<^verbatim>\<open>div\<close> whose \<^verbatim>\<open>id\<close> is \<^verbatim>\<open>this.props.id\<close> and whose \<^verbatim>\<open>ref\<close>
  callback is \<^verbatim>\<open>remountExternalObject\<close>. React creates the element and calls the callback
  with it when the component is mounted, and calls the callback with \<^verbatim>\<open>null\<close> when the
  component is unmounted. Before a change of properties React calls
  \<^verbatim>\<open>componentWillUpdate\<close> with the next properties and assigns them to \<^verbatim>\<open>this.props\<close>
  when the call has returned.
\<close>

definition render_id :: "('p, 'e, 'es) component \<Rightarrow> string" where
  "render_id c = props_id (props c)"

datatype 'p lifecycle =
    Mount element
  | Unmount
  | Update "'p IExternalObjectComponentProps"
  | ForceRegeneration

fun step ::
  "('p, 'e, 'es) subclass_methods \<Rightarrow> ('p, 'e, 'es) component \<Rightarrow> 'p lifecycle
     \<Rightarrow> ('p, 'e, 'es) component outcome" where
  "step h c (Mount el) =
     remountExternalObject h (c\<lparr>element_id := (element_id c)(el := render_id c)\<rparr>) (Some el)"
| "step h c Unmount = remountExternalObject h c None"
| "step h c (Update nextProps) =
     and_then (componentWillUpdate h c nextProps) (\<lambda>c1. Returned (c1\<lparr>props := nextProps\<rparr>))"
| "step h c ForceRegeneration = forceRegeneration h c"


subsection \<open>Observations on the calls\<close>

text \<open>How often \<^verbatim>\<open>newExternalObject\<close> was called.\<close>

fun constructions :: "('e, 'es) event list \<Rightarrow> nat" where
  "constructions [] = 0"
| "constructions (NewExternalObject p k # evs) = Suc (constructions evs)"
| "constructions (ev # evs) = constructions evs"

text \<open>The previous and the next state of every call of \<^verbatim>\<open>updateExternalObject\<close>, in order.\<close>

fun updates :: "('e, 'es) event list \<Rightarrow> ('es option \<times> 'es) list" where
  "updates [] = []"
| "updates (UpdateExternalObject ob prv nxt pc k # evs) = (prv, nxt) # updates evs"
| "updates (ev # evs) = updates evs"


text \<open>The state that a store entry records for an identifier, if any.\<close>

definition recorded_state :: "('p, 'e, 'es) component \<Rightarrow> string \<Rightarrow> 'es option" where
  "recorded_state c k = (case externalObjectStore c k of None \<Rightarrow> None | Some r \<Rightarrow> state r)"


text \<open>The next properties keep the identifier and the store of the component.\<close>

definition same_target ::
  "('p, 'e, 'es) component \<Rightarrow> 'p IExternalObjectComponentProps \<Rightarrow> bool" where
  "same_target c nextProps \<longleftrightarrow>
     props_id nextProps = props_id (props c) \<and>
     props_externalObjectStore nextProps = props_externalObjectStore (props c)"



text \<open>
  A component is well formed when its identifier is not empty, which the constructor
  checks, and when, while it has a parent container, that container is the \<^verbatim>\<open>div\<close> of
  \<^verbatim>\<open>render\<close> and the store holds an entry for the identifier.
\<close>

definition well_formed :: "('p, 'e, 'es) component \<Rightarrow> bool" where
  "well_formed c \<longleftrightarrow>
     props_id (props c) \<noteq> [] \<and>
     (case parentContainer c of
        None \<Rightarrow> True
      | Some p \<Rightarrow> element_id c p = render_id c \<and> externalObjectStore c (props_id (props c)) \<noteq> None)"

text \<open>The same component in a world where the store at one address holds something else.\<close>

definition with_store ::
  "store_address \<Rightarrow> ('e, 'es) ExternalObjectStore \<Rightarrow> ('p, 'e, 'es) component
     \<Rightarrow> ('p, 'e, 'es) component" where
  "with_store a m c = c\<lparr>stores := (stores c)(a := m)\<rparr>"

subsection \<open>An example component\<close>

text \<open>
  A component with the identifier \<^verbatim>\<open>globe\<close> and an injected store, in a world without
  store entries, elements or calls. Its subclass creates a new container at every call of
  \<^verbatim>\<open>newContainer\<close> and takes the rest of the properties as the external state. The
  second component is the same without an injected store.
\<close>

definition example_methods :: "(nat, string, nat) subclass_methods" where
  "example_methods =
     \<lparr>newContainer = (\<lambda>evs p k. Some (100 + length evs)),
      newExternalObject = (\<lambda>evs p parent kc. ''viewer''),
      propsToExternalObjectState = props_rest\<rparr>"

definition example_props :: "nat \<Rightarrow> nat IExternalObjectComponentProps" where
  "example_props n =
     \<lparr>props_id = ''globe'', props_externalObjectStore = Some 0, props_debug = False,
      props_rest = n\<rparr>"

definition example_world :: "(string, nat) world" where
  "example_world =
     \<lparr>stores = (\<lambda>a. Map.empty), parentNode = Map.empty, element_id = (\<lambda>e. []), calls = []\<rparr>"

definition example_component :: "(nat, string, nat) component" where
  "example_component = final (constructor (example_props 1) example_world)"

definition example_component_without_store :: "(nat, string, nat) component" where
  "example_component_without_store =
     final (constructor ((example_props 1)\<lparr>props_externalObjectStore := None\<rparr>) example_world)"

section \<open>Properties of the response translators\<close>

lemma get_Object:
  "get (Object ps) k = (case map_of ps k of None \<Rightarrow> Undefined | Some x \<Rightarrow> x)"
  by (simp add: get_def)

lemma properties_key: "k \<in> keys v \<Longrightarrow> properties v k = Some (get v k)"
  by (auto simp: keys_def get_def)

lemma properties_no_key: "k \<notin> keys v \<Longrightarrow> properties v k = None"
  by (auto simp: keys_def)

lemma get_no_key: "k \<notin> keys v \<Longrightarrow> get v k = Undefined"
  by (simp add: get_def properties_no_key)

lemma truthy_object: "is_object v \<Longrightarrow> truthy v"
  by (cases v) simp_all

lemma keys_Object: "keys (Object ps) = fst ` set ps"
  by (simp add: keys_def dom_map_of_conv_image_fst)

lemma same_object_two_fields:
  assumes obj: "is_object v" and ks: "keys v = {a, b}" and ab: "a \<noteq> b"
  shows "same_object (Object [(a, get v a), (b, get v b)]) v"
proof -
  have pa: "properties v a = Some (get v a)"
    by (rule properties_key) (simp add: ks)
  have pb: "properties v b = Some (get v b)"
    by (rule properties_key) (simp add: ks)
  have pn: "properties v k = None" if "k \<noteq> a" "k \<noteq> b" for k
    by (rule properties_no_key) (use that in \<open>simp add: ks\<close>)
  have "properties (Object [(a, get v a), (b, get v b)]) k = properties v k" for k
  proof -
    consider "k = a" | "k = b" | "k \<noteq> a" "k \<noteq> b" by blast
    then show ?thesis
    proof cases
      case 1
      then show ?thesis by (simp add: pa)
    next
      case 2
      then show ?thesis using ab by (simp add: pb)
    next
      case 3
      then show ?thesis by (simp add: pn)
    qed
  qed
  then have "properties (Object [(a, get v a), (b, get v b)]) = properties v"
    by (rule ext)
  with obj show ?thesis by (simp add: same_object_def)
qed

text \<open>
  C3, as the code has it. For every response that is not falsy (every object in
  particular) the result has exactly the seven client keys; each holds what the response
  holds under the corresponding wire name, which is \<^verbatim>\<open>undefined\<close> when the response lacks
  that name; and the result depends on nothing but the seven wire fields, so every other
  field of the response is dropped.
\<close>

theorem responseToWorkspace_fields:
  assumes "truthy r"
  shows "keys (responseToWorkspace r) =
           {''baseDir'', ''description'', ''isScratch'', ''isModified'', ''isSaved'',
            ''workflow'', ''resources''}
       \<and> properties (responseToWorkspace r) ''baseDir'' = Some (get r ''base_dir'')
       \<and> properties (responseToWorkspace r) ''description'' = Some (get r ''description'')
       \<and> properties (responseToWorkspace r) ''isScratch'' = Some (get r ''is_scratch'')
       \<and> properties (responseToWorkspace r) ''isModified'' = Some (get r ''is_modified'')
       \<and> properties (responseToWorkspace r) ''isSaved'' = Some (get r ''is_saved'')
       \<and> properties (responseToWorkspace r) ''workflow'' = Some (get r ''workflow'')
       \<and> properties (responseToWorkspace r) ''resources'' = Some (get r ''resources'')
       \<and> (\<forall>r'. truthy r' \<and> get r' ''base_dir'' = get r ''base_dir''
               \<and> get r' ''description'' = get r ''description''
               \<and> get r' ''is_scratch'' = get r ''is_scratch''
               \<and> get r' ''is_modified'' = get r ''is_modified''
               \<and> get r' ''is_saved'' = get r ''is_saved''
               \<and> get r' ''workflow'' = get r ''workflow''
               \<and> get r' ''resources'' = get r ''resources''
             \<longrightarrow> responseToWorkspace r' = responseToWorkspace r)"
  using assms by (simp add: responseToWorkspace_def keys_Object)

theorem responseToWorkspace_fields_witness:
  "truthy example_response
   \<and> keys (responseToWorkspace example_response) =
       {''baseDir'', ''description'', ''isScratch'', ''isModified'', ''isSaved'',
        ''workflow'', ''resources''}
   \<and> properties (responseToWorkspace example_response) ''baseDir'' = Some (String ''/x'')
   \<and> properties (responseToWorkspace example_response) ''isScratch'' = Some (Boolean True)
   \<and> properties (responseToWorkspace example_response) ''description'' = Some Undefined
   \<and> responseToWorkspace example_response_extra = responseToWorkspace example_response"
proof -
  have t: "truthy example_response"
    by (simp add: example_response_def)
  note f = responseToWorkspace_fields [OF t]
  have k: "keys (responseToWorkspace example_response) =
       {''baseDir'', ''description'', ''isScratch'', ''isModified'', ''isSaved'',
        ''workflow'', ''resources''}"
    using f by (rule conjunct1)
  have b: "properties (responseToWorkspace example_response) ''baseDir'' = Some (String ''/x'')"
    using f [THEN conjunct2, THEN conjunct1]
    by (simp add: example_response_def get_Object)
  have d: "properties (responseToWorkspace example_response) ''description'' = Some Undefined"
    using f [THEN conjunct2, THEN conjunct2, THEN conjunct1]
    by (simp add: example_response_def get_Object)
  have s: "properties (responseToWorkspace example_response) ''isScratch'' = Some (Boolean True)"
    using f [THEN conjunct2, THEN conjunct2, THEN conjunct2, THEN conjunct1]
    by (simp add: example_response_def get_Object)
  have "truthy example_response_extra
      \<and> get example_response_extra ''base_dir'' = get example_response ''base_dir''
      \<and> get example_response_extra ''description'' = get example_response ''description''
      \<and> get example_response_extra ''is_scratch'' = get example_response ''is_scratch''
      \<and> get example_response_extra ''is_modified'' = get example_response ''is_modified''
      \<and> get example_response_extra ''is_saved'' = get example_response ''is_saved''
      \<and> get example_response_extra ''workflow'' = get example_response ''workflow''
      \<and> get example_response_extra ''resources'' = get example_response ''resources''"
    by (simp add: example_response_def example_response_extra_def get_Object)
  with f have e: "responseToWorkspace example_response_extra = responseToWorkspace example_response"
    by blast
  from t k b s d e show ?thesis by blast
qed

text \<open>
  C3, as stated, fails on its own example: the response
  \<^verbatim>\<open>{base_dir: "/x", is_scratch: true}\<close> is translated to an object with seven keys, five
  of them holding \<^verbatim>\<open>undefined\<close>, and not to \<^verbatim>\<open>{baseDir: "/x", isScratch: true}\<close>.
\<close>

theorem responseToWorkspace_example_has_seven_keys:
  "responseToWorkspace (Object [(''base_dir'', String ''/x''), (''is_scratch'', Boolean True)])
     = Object [(''baseDir'', String ''/x''), (''description'', Undefined),
               (''isScratch'', Boolean True), (''isModified'', Undefined),
               (''isSaved'', Undefined), (''workflow'', Undefined),
               (''resources'', Undefined)]
   \<and> ''description'' \<in> keys (responseToWorkspace
         (Object [(''base_dir'', String ''/x''), (''is_scratch'', Boolean True)]))
   \<and> keys (responseToWorkspace
         (Object [(''base_dir'', String ''/x''), (''is_scratch'', Boolean True)]))
       \<noteq> keys (Object [(''baseDir'', String ''/x''), (''isScratch'', Boolean True)])
   \<and> \<not> same_object
         (responseToWorkspace
            (Object [(''base_dir'', String ''/x''), (''is_scratch'', Boolean True)]))
         (Object [(''baseDir'', String ''/x''), (''isScratch'', Boolean True)])"
proof -
  let ?r = "responseToWorkspace
              (Object [(''base_dir'', String ''/x''), (''is_scratch'', Boolean True)])"
  let ?claimed = "Object [(''baseDir'', String ''/x''), (''isScratch'', Boolean True)]"
  have result: "?r = Object [(''baseDir'', String ''/x''), (''description'', Undefined),
               (''isScratch'', Boolean True), (''isModified'', Undefined),
               (''isSaved'', Undefined), (''workflow'', Undefined),
               (''resources'', Undefined)]"
    by (simp add: responseToWorkspace_def get_Object)
  have inside: "''description'' \<in> keys ?r"
    by (simp add: result keys_Object)
  have outside: "''description'' \<notin> keys ?claimed"
    by (simp add: keys_Object)
  from inside outside have differ: "keys ?r \<noteq> keys ?claimed"
    by blast
  have "\<not> same_object ?r ?claimed"
  proof
    assume "same_object ?r ?claimed"
    then have "properties ?r = properties ?claimed"
      unfolding same_object_def by (elim conjE)
    then have "keys ?r = keys ?claimed"
      by (simp only: keys_def)
    with differ show False by (rule notE)
  qed
  with result inside differ show ?thesis by blast
qed

text \<open>
  C8. The translation of the backend configuration is a round trip in both directions: a
  client object with exactly the fields \<^verbatim>\<open>dataStoresPath\<close> and
  \<^verbatim>\<open>useWorkspaceImageryCache\<close> is recovered from its wire form, and a wire object with
  exactly the fields \<^verbatim>\<open>data_stores_path\<close> and \<^verbatim>\<open>use_workspace_imagery_cache\<close> is recovered
  from its client form.
\<close>

theorem backend_config_round_trip:
  "(is_object c \<and> keys c = {''dataStoresPath'', ''useWorkspaceImageryCache''}
      \<longrightarrow> same_object (fromPythonConfig (toPythonConfig c)) c)
   \<and> (is_object r \<and> keys r = {''data_stores_path'', ''use_workspace_imagery_cache''}
      \<longrightarrow> same_object (toPythonConfig (fromPythonConfig r)) r)"
proof (intro conjI impI)
  assume c: "is_object c \<and> keys c = {''dataStoresPath'', ''useWorkspaceImageryCache''}"
  then have "truthy c" by (simp add: truthy_object)
  then have "fromPythonConfig (toPythonConfig c)
       = Object [(''dataStoresPath'', get c ''dataStoresPath''),
                 (''useWorkspaceImageryCache'', get c ''useWorkspaceImageryCache'')]"
    by (simp add: fromPythonConfig_def toPythonConfig_def get_Object)
  moreover have "same_object
       (Object [(''dataStoresPath'', get c ''dataStoresPath''),
                (''useWorkspaceImageryCache'', get c ''useWorkspaceImageryCache'')]) c"
    using c by (intro same_object_two_fields) simp_all
  ultimately show "same_object (fromPythonConfig (toPythonConfig c)) c" by simp
next
  assume r: "is_object r \<and> keys r = {''data_stores_path'', ''use_workspace_imagery_cache''}"
  then have "truthy r" by (simp add: truthy_object)
  then have "toPythonConfig (fromPythonConfig r)
       = Object [(''data_stores_path'', get r ''data_stores_path''),
                 (''use_workspace_imagery_cache'', get r ''use_workspace_imagery_cache'')]"
    by (simp add: fromPythonConfig_def toPythonConfig_def get_Object)
  moreover have "same_object
       (Object [(''data_stores_path'', get r ''data_stores_path''),
                (''use_workspace_imagery_cache'', get r ''use_workspace_imagery_cache'')]) r"
    using r by (intro same_object_two_fields) simp_all
  ultimately show "same_object (toPythonConfig (fromPythonConfig r)) r" by simp
qed

theorem backend_config_round_trip_witness:
  "is_object (Object [(''useWorkspaceImageryCache'', Boolean True),
                      (''dataStoresPath'', String ''/data'')])
   \<and> keys (Object [(''useWorkspaceImageryCache'', Boolean True),
                   (''dataStoresPath'', String ''/data'')])
       = {''dataStoresPath'', ''useWorkspaceImageryCache''}
   \<and> same_object
        (fromPythonConfig (toPythonConfig
           (Object [(''useWorkspaceImageryCache'', Boolean True),
                    (''dataStoresPath'', String ''/data'')])))
        (Object [(''useWorkspaceImageryCache'', Boolean True),
                 (''dataStoresPath'', String ''/data'')])
   \<and> is_object (Object [(''data_stores_path'', String ''/data''),
                        (''use_workspace_imagery_cache'', Boolean False)])
   \<and> keys (Object [(''data_stores_path'', String ''/data''),
                   (''use_workspace_imagery_cache'', Boolean False)])
       = {''data_stores_path'', ''use_workspace_imagery_cache''}
   \<and> same_object
        (toPythonConfig (fromPythonConfig
           (Object [(''data_stores_path'', String ''/data''),
                    (''use_workspace_imagery_cache'', Boolean False)])))
        (Object [(''data_stores_path'', String ''/data''),
                 (''use_workspace_imagery_cache'', Boolean False)])"
  using backend_config_round_trip
          [of "Object [(''useWorkspaceImageryCache'', Boolean True),
                       (''dataStoresPath'', String ''/data'')]"
              "Object [(''data_stores_path'', String ''/data''),
                       (''use_workspace_imagery_cache'', Boolean False)]"]
  by (simp add: keys_Object insert_commute)


section \<open>Properties of the task list entry\<close>

lemma isMakingProgress_iff: "isMakingProgress t \<longleftrightarrow> determinate t"
  by (auto simp: isMakingProgress_def determinate_def truthy_number_def greater_zero_def
           split: option.splits)

lemma not_determinate_total: "progress t = Some p \<Longrightarrow> total p = Some n \<Longrightarrow> n \<le> 0 \<Longrightarrow> \<not> determinate t"
  by (auto simp: determinate_def)

text \<open>
  C6. For a running task (NEW, SUBMITTED or IN\_PROGRESS) the entry shows a progress bar
  with the value worked/total exactly when the task is IN\_PROGRESS with a progress record
  whose worked counter is nonzero and whose total is positive. In every other running
  case, and so whenever the progress record has a total that is zero or negative, it
  shows the progress bar without a value.
\<close>

theorem running_task_progress_bar:
  assumes "isRunning t"
  shows "(\<forall>p w n. status t = IN_PROGRESS \<and> progress t = Some p \<and> worked p = Some w \<and> w \<noteq> 0
                  \<and> total p = Some n \<and> 0 < n
            \<longrightarrow> percentage (shown_activity (render t jobId)) = Some (w / n))
       \<and> (percentage (shown_activity (render t jobId)) \<noteq> None \<longrightarrow> determinate t)
       \<and> (\<not> determinate t \<longrightarrow> shown_activity (render t jobId) = Some UnboundedProgressBar)
       \<and> (\<forall>p n. progress t = Some p \<and> total p = Some n \<and> n \<le> 0
            \<longrightarrow> shown_activity (render t jobId) = Some UnboundedProgressBar
              \<and> percentage (shown_activity (render t jobId)) = None)"
proof (intro conjI allI impI)
  fix p w n
  assume h: "status t = IN_PROGRESS \<and> progress t = Some p \<and> worked p = Some w \<and> w \<noteq> 0
              \<and> total p = Some n \<and> 0 < n"
  then have "determinate t" by (auto simp: determinate_def)
  with h assms show "percentage (shown_activity (render t jobId)) = Some (w / n)"
    by (simp add: render_def isMakingProgress_iff Let_def)
next
  assume "percentage (shown_activity (render t jobId)) \<noteq> None"
  with assms show "determinate t"
    by (cases "determinate t") (simp_all add: render_def isMakingProgress_iff Let_def)
next
  assume "\<not> determinate t"
  with assms show "shown_activity (render t jobId) = Some UnboundedProgressBar"
    by (simp add: render_def isMakingProgress_iff Let_def)
next
  fix p n
  assume "progress t = Some p \<and> total p = Some n \<and> n \<le> 0"
  then have "\<not> determinate t" by (auto dest: not_determinate_total)
  with assms show "shown_activity (render t jobId) = Some UnboundedProgressBar"
    by (simp add: render_def isMakingProgress_iff Let_def)
next
  fix p n
  assume "progress t = Some p \<and> total p = Some n \<and> n \<le> 0"
  then have "\<not> determinate t" by (auto dest: not_determinate_total)
  with assms show "percentage (shown_activity (render t jobId)) = None"
    by (simp add: render_def isMakingProgress_iff Let_def)
qed

theorem running_task_progress_bar_witness:
  "isRunning \<lparr>status = IN_PROGRESS,
              progress = Some \<lparr>worked = Some 5, total = Some 10, message = None\<rparr>,
              failure = None, title = None\<rparr>
   \<and> percentage (shown_activity (render
        \<lparr>status = IN_PROGRESS,
         progress = Some \<lparr>worked = Some 5, total = Some 10, message = None\<rparr>,
         failure = None, title = None\<rparr> 7)) = Some (1 / 2)
   \<and> isRunning \<lparr>status = IN_PROGRESS,
              progress = Some \<lparr>worked = Some 5, total = Some 0, message = None\<rparr>,
              failure = None, title = None\<rparr>
   \<and> shown_activity (render
        \<lparr>status = IN_PROGRESS,
         progress = Some \<lparr>worked = Some 5, total = Some 0, message = None\<rparr>,
         failure = None, title = None\<rparr> 7) = Some UnboundedProgressBar"
  using running_task_progress_bar
          [of "\<lparr>status = IN_PROGRESS,
                progress = Some \<lparr>worked = Some 5, total = Some 10, message = None\<rparr>,
                failure = None, title = None\<rparr>" 7]
        running_task_progress_bar
          [of "\<lparr>status = IN_PROGRESS,
                progress = Some \<lparr>worked = Some 5, total = Some 0, message = None\<rparr>,
                failure = None, title = None\<rparr>" 7]
  by (simp add: isRunning_def)

text \<open>
  C10. The entry offers the Cancel button exactly when the task is IN\_PROGRESS with a
  progress record whose worked counter is nonzero and whose total is positive. A running
  task whose progress record is missing, or has a worked counter of zero, or a total that
  is zero or negative, has no Cancel button.
\<close>

theorem cancel_button_iff_determinate:
  "(offers_cancel (shown_activity (render t jobId)) \<longleftrightarrow>
      status t = IN_PROGRESS \<and>
      (\<exists>p w n. progress t = Some p \<and> worked p = Some w \<and> w \<noteq> 0 \<and> total p = Some n \<and> 0 < n))
   \<and> (isRunning t \<and> progress t = None \<longrightarrow> \<not> offers_cancel (shown_activity (render t jobId)))
   \<and> (\<forall>p. isRunning t \<and> progress t = Some p \<and> (worked p = Some 0 \<or> worked p = None)
          \<longrightarrow> \<not> offers_cancel (shown_activity (render t jobId)))
   \<and> (\<forall>p n. isRunning t \<and> progress t = Some p \<and> total p = Some n \<and> n \<le> 0
          \<longrightarrow> \<not> offers_cancel (shown_activity (render t jobId)))"
proof -
  have main: "offers_cancel (shown_activity (render t jobId)) \<longleftrightarrow> determinate t"
    by (simp add: render_def isMakingProgress_iff Let_def determinate_def isRunning_def)
  show ?thesis
    unfolding main by (auto simp: determinate_def)
qed

theorem cancel_button_iff_determinate_witness:
  "offers_cancel (shown_activity (render
        \<lparr>status = IN_PROGRESS,
         progress = Some \<lparr>worked = Some 5, total = Some 10, message = None\<rparr>,
         failure = None, title = None\<rparr> 7))
   \<and> isRunning \<lparr>status = SUBMITTED, progress = None, failure = None, title = None\<rparr>
   \<and> \<not> offers_cancel (shown_activity (render
        \<lparr>status = SUBMITTED, progress = None, failure = None, title = None\<rparr> 7))"
  using cancel_button_iff_determinate
          [of "\<lparr>status = IN_PROGRESS,
                progress = Some \<lparr>worked = Some 5, total = Some 10, message = None\<rparr>,
                failure = None, title = None\<rparr>" 7]
        cancel_button_iff_determinate
          [of "\<lparr>status = SUBMITTED, progress = None, failure = None, title = None\<rparr>" 7]
  by (simp add: isRunning_def)

section \<open>Properties of the lifecycle bridge\<close>

subsection \<open>Fields after the helpers\<close>

lemma call_fields [simp]:
  "props (call ev c) = props c"
  "parentContainer (call ev c) = parentContainer c"
  "stores (call ev c) = stores c"
  "parentNode (call ev c) = parentNode c"
  "element_id (call ev c) = element_id c"
  "calls (call ev c) = calls c @ [ev]"
  by (simp_all add: call_def)

lemma debug_log_fields [simp]:
  "props (debug_log m c) = props c"
  "parentContainer (debug_log m c) = parentContainer c"
  "stores (debug_log m c) = stores c"
  "parentNode (debug_log m c) = parentNode c"
  "element_id (debug_log m c) = element_id c"
  "calls (debug_log m c) =
     calls c @ (if props_debug (props c) then [ConsoleLog m (props_id (props c))] else [])"
  by (simp_all add: debug_log_def)

lemma appendChild_fields [simp]:
  "props (appendChild p k c) = props c"
  "parentContainer (appendChild p k c) = parentContainer c"
  "stores (appendChild p k c) = stores c"
  "parentNode (appendChild p k c) = (parentNode c)(k \<mapsto> p)"
  "element_id (appendChild p k c) = element_id c"
  "calls (appendChild p k c) = calls c"
  by (simp_all add: appendChild_def)

lemma store_put_fields [simp]:
  "props (store_put k r c) = props c"
  "parentContainer (store_put k r c) = parentContainer c"
  "stores (store_put k r c) =
     (stores c)(externalObjectStore_address c := (externalObjectStore c)(k \<mapsto> r))"
  "parentNode (store_put k r c) = parentNode c"
  "element_id (store_put k r c) = element_id c"
  "calls (store_put k r c) = calls c"
  by (simp_all add: store_put_def)

lemma store_delete_fields [simp]:
  "props (store_delete k c) = props c"
  "parentContainer (store_delete k c) = parentContainer c"
  "stores (store_delete k c) =
     (stores c)(externalObjectStore_address c := (externalObjectStore c)(k := None))"
  "parentNode (store_delete k c) = parentNode c"
  "element_id (store_delete k c) = element_id c"
  "calls (store_delete k c) = calls c"
  by (simp_all add: store_delete_def)

lemma store_cong:
  "props c' = props c \<Longrightarrow> stores c' = stores c \<Longrightarrow> externalObjectStore c' = externalObjectStore c"
  by (simp add: externalObjectStore_def externalObjectStore_address_def)

lemma address_simps [simp]:
  "externalObjectStore_address (call ev c) = externalObjectStore_address c"
  "externalObjectStore_address (debug_log m c) = externalObjectStore_address c"
  "externalObjectStore_address (appendChild p k c) = externalObjectStore_address c"
  "externalObjectStore_address (store_put i r c) = externalObjectStore_address c"
  "externalObjectStore_address (store_delete i c) = externalObjectStore_address c"
  "externalObjectStore_address (c\<lparr>parentContainer := pc\<rparr>) = externalObjectStore_address c"
  "externalObjectStore_address (c\<lparr>element_id := ei\<rparr>) = externalObjectStore_address c"
  "externalObjectStore_address (c\<lparr>parentNode := pn\<rparr>) = externalObjectStore_address c"
  by (simp_all add: externalObjectStore_address_def)

lemma store_simps [simp]:
  "externalObjectStore (call ev c) = externalObjectStore c"
  "externalObjectStore (debug_log m c) = externalObjectStore c"
  "externalObjectStore (appendChild p k c) = externalObjectStore c"
  "externalObjectStore (store_put i r c) = (externalObjectStore c)(i \<mapsto> r)"
  "externalObjectStore (store_delete i c) = (externalObjectStore c)(i := None)"
  "externalObjectStore (c\<lparr>parentContainer := pc\<rparr>) = externalObjectStore c"
  "externalObjectStore (c\<lparr>element_id := ei\<rparr>) = externalObjectStore c"
  "externalObjectStore (c\<lparr>parentNode := pn\<rparr>) = externalObjectStore c"
  by (simp_all add: externalObjectStore_def)

lemma missing_reference_eq [simp]: "missing_reference = AssertionError"
  by (simp add: missing_reference_def assert_ok_def)

subsection \<open>What each method does\<close>

lemma update_returns:
  assumes "externalObjectStore c (props_id np) = Some r"
  shows "updateExternalComponentAndSaveProps h c np =
           Returned (store_put (props_id np) (r\<lparr>state := Some (propsToExternalObjectState h np)\<rparr>)
             (call (UpdateExternalObject (object r) (state r) (propsToExternalObjectState h np)
                      (parentContainer c) (container r))
                (debug_log ''updating existing external object'' c)))"
  using assms by (simp add: updateExternalComponentAndSaveProps_def Let_def)

lemma update_throws:
  assumes "externalObjectStore c (props_id np) = None"
  shows "updateExternalComponentAndSaveProps h c np = Thrown AssertionError c"
  using assms by (simp add: updateExternalComponentAndSaveProps_def)

lemma mountNew_effect:
  fixes h :: "('p, 'e, 'es) subclass_methods" and c :: "('p, 'e, 'es) component" and p :: element
  defines "k \<equiv> props_id (props c)"
  defines "kc \<equiv> newContainer h (calls c) (props c) k"
  defines "evs \<equiv> calls c @ [NewContainer k] @
                   (if kc \<noteq> None \<and> props_debug (props c)
                    then [ConsoleLog ''attaching new external object'' k] else [])"
  defines "ob \<equiv> newExternalObject h evs (props c) p kc"
  defines "nxt \<equiv> propsToExternalObjectState h (props c)"
  shows "\<exists>c'. mountNewExternalObject h c p = Returned c'
           \<and> props c' = props c
           \<and> parentContainer c' = Some p
           \<and> element_id c' = element_id c
           \<and> parentNode c' = (case kc of None \<Rightarrow> parentNode c | Some e \<Rightarrow> (parentNode c)(e \<mapsto> p))
           \<and> stores c' = (stores c)(externalObjectStore_address c :=
                 (externalObjectStore c)(k \<mapsto> \<lparr>object = ob, state = Some nxt, container = kc\<rparr>))
           \<and> calls c' = evs @ [NewExternalObject p kc, ExternalObjectMounted ob p kc]
                 @ (if props_debug (props c)
                    then [ConsoleLog ''updating existing external object'' k] else [])
                 @ [UpdateExternalObject ob None nxt (Some p) kc]"
  unfolding k_def kc_def evs_def ob_def nxt_def
  by (cases "newContainer h (calls c) (props c) (props_id (props c))")
     (simp_all add: mountNewExternalObject_def Let_def update_returns)

lemma mountExisting_effect:
  fixes h :: "('p, 'e, 'es) subclass_methods" and c :: "('p, 'e, 'es) component" and p :: element
  assumes "externalObjectStore c (props_id (props c)) = Some r"
  defines "k \<equiv> props_id (props c)"
  defines "nxt \<equiv> propsToExternalObjectState h (props c)"
  defines "moved \<equiv> (\<exists>e. container r = Some e \<and> parentNode c e \<noteq> Some p)"
  shows "\<exists>c'. mountExistingExternalObject h c p = Returned c'
           \<and> props c' = props c
           \<and> parentContainer c' = Some p
           \<and> element_id c' = element_id c
           \<and> parentNode c' = (case container r of None \<Rightarrow> parentNode c
                                | Some e \<Rightarrow> (parentNode c)(e \<mapsto> p))
           \<and> stores c' = (stores c)(externalObjectStore_address c :=
                 (externalObjectStore c)(k \<mapsto> r\<lparr>state := Some nxt\<rparr>))
           \<and> calls c' = calls c
                 @ (if moved \<and> props_debug (props c)
                    then [ConsoleLog ''attaching existing external object'' k] else [])
                 @ [ExternalObjectMounted (object r) p (container r)]
                 @ (if props_debug (props c)
                    then [ConsoleLog ''updating existing external object'' k] else [])
                 @ [UpdateExternalObject (object r) (state r) nxt (Some p) (container r)]"
  using assms(1) unfolding k_def nxt_def moved_def
  by (cases "container r")
     (auto simp add: mountExistingExternalObject_def Let_def update_returns contains_def)

lemma unmount_effect:
  fixes h :: "('p, 'e, 'es) subclass_methods" and c :: "('p, 'e, 'es) component" and p :: element
  assumes "externalObjectStore c (element_id c p) = Some r"
  defines "attached \<equiv> (\<exists>e. container r = Some e \<and> parentNode c e = Some p)"
  shows "\<exists>c'. unmountExternalObject h c p = Returned c'
           \<and> props c' = props c
           \<and> parentContainer c' = None
           \<and> element_id c' = element_id c
           \<and> parentNode c' = (case container r of None \<Rightarrow> parentNode c
                                | Some e \<Rightarrow> if parentNode c e = Some p
                                            then (parentNode c)(e := None) else parentNode c)
           \<and> stores c' = stores c
           \<and> calls c' = calls c
                 @ (if attached \<and> props_debug (props c)
                    then [ConsoleLog ''detaching external object'' (props_id (props c))] else [])
                 @ [ExternalObjectUnmounted (object r) p (container r)]"
  using assms(1) unfolding attached_def
  by (cases "container r")
     (auto simp add: unmountExternalObject_def Let_def contains_def removeChild_def)

lemma unmount_throws:
  assumes "externalObjectStore c (element_id c p) = None"
  shows "unmountExternalObject h c p = Thrown AssertionError c"
  using assms by (simp add: unmountExternalObject_def)

subsection \<open>The store at another address does not matter\<close>

lemma with_store_fields [simp]:
  "props (with_store a m c) = props c"
  "parentContainer (with_store a m c) = parentContainer c"
  "stores (with_store a m c) = (stores c)(a := m)"
  "parentNode (with_store a m c) = parentNode c"
  "element_id (with_store a m c) = element_id c"
  "calls (with_store a m c) = calls c"
  "externalObjectStore_address (with_store a m c) = externalObjectStore_address c"
  by (simp_all add: with_store_def externalObjectStore_address_def)

lemma with_store_other [simp]:
  "a \<noteq> externalObjectStore_address c \<Longrightarrow> externalObjectStore (with_store a m c) = externalObjectStore c"
  by (simp add: externalObjectStore_def)

lemma with_store_commute:
  "call ev (with_store a m c) = with_store a m (call ev c)"
  "debug_log msg (with_store a m c) = with_store a m (debug_log msg c)"
  "appendChild p k (with_store a m c) = with_store a m (appendChild p k c)"
  "(with_store a m c)\<lparr>parentContainer := pc\<rparr> = with_store a m (c\<lparr>parentContainer := pc\<rparr>)"
  "(with_store a m c)\<lparr>props := np\<rparr> = with_store a m (c\<lparr>props := np\<rparr>)"
  "(with_store a m c)\<lparr>element_id := ei\<rparr> = with_store a m (c\<lparr>element_id := ei\<rparr>)"
  "(with_store a m c)\<lparr>parentNode := pn\<rparr> = with_store a m (c\<lparr>parentNode := pn\<rparr>)"
  by (simp_all add: with_store_def call_def debug_log_def appendChild_def)

lemma with_store_commute_put:
  assumes "a \<noteq> externalObjectStore_address c"
  shows "store_put k r (with_store a m c) = with_store a m (store_put k r c)"
    and "store_delete k (with_store a m c) = with_store a m (store_delete k c)"
  using assms
  by (auto simp add: with_store_def store_put_def store_delete_def externalObjectStore_def
        externalObjectStore_address_def fun_upd_twist)

lemma removeChild_with_store:
  "removeChild p k (with_store a m c) = map_outcome (with_store a m) (removeChild p k c)"
  by (simp add: removeChild_def with_store_def)

lemma update_with_store:
  assumes "a \<noteq> externalObjectStore_address c"
  shows "updateExternalComponentAndSaveProps h (with_store a m c) np
           = map_outcome (with_store a m) (updateExternalComponentAndSaveProps h c np)"
proof (cases "externalObjectStore c (props_id np)")
  case None
  with assms show ?thesis by (simp add: update_throws)
next
  case (Some r)
  with assms show ?thesis
    by (simp add: update_returns with_store_commute with_store_commute_put)
qed

lemma mountNew_with_store:
  assumes "a \<noteq> externalObjectStore_address c"
  shows "mountNewExternalObject h (with_store a m c) p
           = map_outcome (with_store a m) (mountNewExternalObject h c p)"
  using assms
  by (simp add: mountNewExternalObject_def Let_def with_store_commute with_store_commute_put
        update_with_store split: option.splits)

lemma mountExisting_with_store:
  assumes "a \<noteq> externalObjectStore_address c"
  shows "mountExistingExternalObject h (with_store a m c) p
           = map_outcome (with_store a m) (mountExistingExternalObject h c p)"
  using assms
  by (simp add: mountExistingExternalObject_def Let_def with_store_commute contains_def
        update_with_store split: option.splits)

lemma unmount_with_store:
  assumes "a \<noteq> externalObjectStore_address c"
  shows "unmountExternalObject h (with_store a m c) p
           = map_outcome (with_store a m) (unmountExternalObject h c p)"
  using assms
  by (simp add: unmountExternalObject_def Let_def with_store_commute contains_def
        removeChild_def split: option.splits)

lemma remount_with_store:
  assumes "a \<noteq> externalObjectStore_address c"
  shows "remountExternalObject h (with_store a m c) po
           = map_outcome (with_store a m) (remountExternalObject h c po)"
  using assms
  by (simp add: remountExternalObject_def mountNew_with_store mountExisting_with_store
        unmount_with_store split: option.splits)

lemma componentWillUpdate_with_store:
  assumes "a \<noteq> externalObjectStore_address c"
  shows "componentWillUpdate h (with_store a m c) np
           = map_outcome (with_store a m) (componentWillUpdate h c np)"
  using assms
  by (simp add: componentWillUpdate_def update_with_store remount_with_store
        split: option.splits)

lemma forceRegeneration_with_store:
  assumes "a \<noteq> externalObjectStore_address c"
  shows "forceRegeneration h (with_store a m c)
           = map_outcome (with_store a m) (forceRegeneration h c)"
  using assms
  by (simp add: forceRegeneration_def Let_def removeChild_def with_store_commute
        with_store_commute_put remount_with_store split: option.splits)

lemma step_with_store:
  assumes "a \<noteq> externalObjectStore_address c"
  shows "step h (with_store a m c) x = map_outcome (with_store a m) (step h c x)"
proof (cases x)
  case (Mount el)
  with assms show ?thesis
    by (simp add: with_store_commute remount_with_store render_id_def)
next
  case Unmount
  with assms show ?thesis by (simp add: remount_with_store)
next
  case (Update np)
  with assms show ?thesis
    by (cases "componentWillUpdate h c np")
       (simp_all add: componentWillUpdate_with_store with_store_commute)
next
  case ForceRegeneration
  with assms show ?thesis by (simp add: forceRegeneration_with_store)
qed

subsection \<open>Stores at other addresses, and the entries of a store\<close>

lemma update_frame:
  "a \<noteq> externalObjectStore_address c \<Longrightarrow>
   stores (final (updateExternalComponentAndSaveProps h c np)) a = stores c a"
  by (cases "externalObjectStore c (props_id np)") (simp_all add: update_throws update_returns)


lemma mountExisting_throws:
  assumes "externalObjectStore c (props_id (props c)) = None"
  shows "mountExistingExternalObject h c p = Thrown AssertionError c"
  using assms by (simp add: mountExistingExternalObject_def)

lemma mountNew_frame:
  "a \<noteq> externalObjectStore_address c \<Longrightarrow> stores (final (mountNewExternalObject h c p)) a = stores c a"
  using mountNew_effect [of h c p] by auto


lemma mountExisting_frame:
  "a \<noteq> externalObjectStore_address c \<Longrightarrow> stores (final (mountExistingExternalObject h c p)) a = stores c a"
proof (cases "externalObjectStore c (props_id (props c))")
  case None
  then show ?thesis by (simp add: mountExisting_throws)
next
  case (Some r)
  assume "a \<noteq> externalObjectStore_address c"
  with mountExisting_effect [OF Some, of h p] show ?thesis by auto
qed


lemma unmount_stores:
  "stores (final (unmountExternalObject h c p)) = stores c"
proof (cases "externalObjectStore c (element_id c p)")
  case None
  then show ?thesis by (simp add: unmount_throws)
next
  case (Some r)
  with unmount_effect [OF Some, of h] show ?thesis by auto
qed

lemma remount_frame:
  "a \<noteq> externalObjectStore_address c \<Longrightarrow> stores (final (remountExternalObject h c po)) a = stores c a"
  by (simp add: remountExternalObject_def mountNew_frame mountExisting_frame unmount_stores
        split: option.splits)


lemma componentWillUpdate_frame:
  "a \<noteq> externalObjectStore_address c \<Longrightarrow> stores (final (componentWillUpdate h c np)) a = stores c a"
  by (simp add: componentWillUpdate_def update_frame remount_frame split: option.splits)


lemma final_and_then_props:
  "stores (final (and_then X (\<lambda>c1. Returned (c1\<lparr>props := np\<rparr>)))) = stores (final X)"
  by (cases X) simp_all

lemma forceRegeneration_frame:
  "a \<noteq> externalObjectStore_address c \<Longrightarrow> stores (final (forceRegeneration h c)) a = stores c a"
  by (simp add: forceRegeneration_def Let_def removeChild_def remount_frame split: option.splits)

lemma step_frame:
  "a \<noteq> externalObjectStore_address c \<Longrightarrow> stores (final (step h c x)) a = stores c a"
  by (cases x)
     (simp_all add: remount_frame componentWillUpdate_frame forceRegeneration_frame
        final_and_then_props)



subsection \<open>Calls of a run\<close>

lemma updates_append [simp]: "updates (xs @ ys) = updates xs @ updates ys"
  by (induction xs rule: updates.induct) simp_all

lemma constructions_append [simp]: "constructions (xs @ ys) = constructions xs + constructions ys"
  by (induction xs rule: constructions.induct) simp_all




lemma updates_log [simp]: "updates (if b then [ConsoleLog m k] else []) = []"
  by simp

lemma constructions_log [simp]: "constructions (if b then [ConsoleLog m k] else []) = 0"
  by simp




subsection \<open>The ordinary life cycle of one identifier\<close>

lemma same_target_refl [simp]: "same_target c (props c)"
  by (simp add: same_target_def)












lemma constructor_well_formed:
  "constructor p w = Returned c \<Longrightarrow> well_formed c \<and> parentContainer c = None"
  by (auto simp add: constructor_def well_formed_def checkProps_def Let_def split: if_splits)


subsection \<open>The example component\<close>

lemmas bridge_defs =
  example_component_def example_component_without_store_def example_methods_def
  example_props_def example_world_def constructor_def checkProps_def
  remountExternalObject_def mountNewExternalObject_def mountExistingExternalObject_def
  unmountExternalObject_def updateExternalComponentAndSaveProps_def componentWillUpdate_def
  forceRegeneration_def
  render_id_def contains_def removeChild_def appendChild_def call_def debug_log_def
  store_put_def store_delete_def externalObjectStore_def externalObjectStore_address_def
  Let_def




subsection \<open>The claims on the lifecycle bridge\<close>










text \<open>
  C7, as the code has it. Every step of a component works on the store that the getter
  \<^verbatim>\<open>externalObjectStore\<close> selects: the injected store when the property is set, and the
  static default cache of the class when it is not. The stores at all other addresses are
  left as they are, and what they hold has no influence on the step.
\<close>

theorem store_access_through_getter:
  "(\<forall>i a m. props_externalObjectStore (props c) = Some i \<and> a \<noteq> Injected i
       \<longrightarrow> stores (final (step h c x)) a = stores c a
         \<and> step h (with_store a m c) x = map_outcome (with_store a m) (step h c x))
   \<and> (\<forall>a m. props_externalObjectStore (props c) = None \<and> a \<noteq> DEFAULT_EXTERNAL_OBJECT_CACHE
       \<longrightarrow> stores (final (step h c x)) a = stores c a
         \<and> step h (with_store a m c) x = map_outcome (with_store a m) (step h c x))"
proof (intro conjI allI impI)
  fix i a m
  assume "props_externalObjectStore (props c) = Some i \<and> a \<noteq> Injected i"
  then have a: "a \<noteq> externalObjectStore_address c"
    by (simp add: externalObjectStore_address_def)
  from a show "stores (final (step h c x)) a = stores c a" by (rule step_frame)
  from a show "step h (with_store a m c) x = map_outcome (with_store a m) (step h c x)"
    by (rule step_with_store)
next
  fix a m
  assume "props_externalObjectStore (props c) = None \<and> a \<noteq> DEFAULT_EXTERNAL_OBJECT_CACHE"
  then have a: "a \<noteq> externalObjectStore_address c"
    by (simp add: externalObjectStore_address_def)
  from a show "stores (final (step h c x)) a = stores c a" by (rule step_frame)
  from a show "step h (with_store a m c) x = map_outcome (with_store a m) (step h c x)"
    by (rule step_with_store)
qed

theorem store_access_through_getter_witness:
  "props_externalObjectStore (props example_component) = Some 0
   \<and> DEFAULT_EXTERNAL_OBJECT_CACHE \<noteq> Injected 0
   \<and> stores (final (step example_methods example_component (Mount 1)))
        DEFAULT_EXTERNAL_OBJECT_CACHE = Map.empty
   \<and> stores (final (step example_methods example_component (Mount 1))) (Injected 0) ''globe''
        \<noteq> None
   \<and> props_externalObjectStore (props example_component_without_store) = None
   \<and> Injected 0 \<noteq> DEFAULT_EXTERNAL_OBJECT_CACHE
   \<and> stores (final (step example_methods example_component_without_store (Mount 1)))
        (Injected 0) = Map.empty"
proof -
  have i: "props_externalObjectStore (props example_component) = Some 0"
    by (simp add: bridge_defs)
  have n: "props_externalObjectStore (props example_component_without_store) = None"
    by (simp add: bridge_defs)
  have d: "DEFAULT_EXTERNAL_OBJECT_CACHE \<noteq> Injected 0" by simp
  from store_access_through_getter [of example_component example_methods "Mount 1"] i d
  have "stores (final (step example_methods example_component (Mount 1)))
          DEFAULT_EXTERNAL_OBJECT_CACHE = stores example_component DEFAULT_EXTERNAL_OBJECT_CACHE"
    by blast
  then have f1: "stores (final (step example_methods example_component (Mount 1)))
        DEFAULT_EXTERNAL_OBJECT_CACHE = Map.empty"
    by (simp add: bridge_defs)
  from store_access_through_getter [of example_component_without_store example_methods "Mount 1"] n d
  have "stores (final (step example_methods example_component_without_store (Mount 1)))
          (Injected 0) = stores example_component_without_store (Injected 0)"
    by blast
  then have f2: "stores (final (step example_methods example_component_without_store (Mount 1)))
        (Injected 0) = Map.empty"
    by (simp add: bridge_defs)
  have w: "stores (final (step example_methods example_component (Mount 1))) (Injected 0) ''globe''
        \<noteq> None"
    by (simp add: bridge_defs)
  from i d f1 w n f2 show ?thesis by simp
qed

text \<open>
  C7, as stated, fails: a component without an injected store writes its entry into the
  static default cache, and reads it from there at the next update.
\<close>

theorem default_cache_used_without_injected_store:
  "props_externalObjectStore (props example_component_without_store) = None
   \<and> stores example_component_without_store DEFAULT_EXTERNAL_OBJECT_CACHE ''globe'' = None
   \<and> stores (final (step example_methods example_component_without_store (Mount 1)))
        DEFAULT_EXTERNAL_OBJECT_CACHE ''globe'' \<noteq> None
   \<and> recorded_state
        ((final (step example_methods example_component_without_store (Mount 1)))
           \<lparr>props := (example_props 2)\<lparr>props_externalObjectStore := None\<rparr>\<rparr>) ''globe''
        = Some 1"
  by (simp add: bridge_defs recorded_state_def)


end
